theory Spec2Isabelle
  imports Main "HOL-Library.Sublist" "HOL-Library.Word"
begin

section \<open>Strings and numbers of the host language\<close>

text \<open>
  A JavaScript string is a sequence of UTF-16 code units. The model uses \<^typ>\<open>string\<close>
  and reads each \<^typ>\<open>char\<close> as a code unit below 256 (the Latin-1 range). On that range
  the built-ins used by \<^verbatim>\<open>formatter.ts\<close> are modelled exactly:
  \<^verbatim>\<open>toLowerCase\<close>, \<^verbatim>\<open>trim\<close>, \<^verbatim>\<open>split(' ')\<close>, \<^verbatim>\<open>join\<close>, \<^verbatim>\<open>includes\<close>
  and the conversion of an integer to its decimal string.
\<close>

definition isUpper :: "char \<Rightarrow> bool" where
  "isUpper c =
     (let n = (of_char c :: nat)
      in (65 \<le> n \<and> n \<le> 90) \<or> (192 \<le> n \<and> n \<le> 222 \<and> n \<noteq> 215))"

definition lowerChar :: "char \<Rightarrow> char" where
  "lowerChar c = (if isUpper c then char_of ((of_char c :: nat) + 32) else c)"

definition toLowerCase :: "string \<Rightarrow> string" where
  "toLowerCase s = map lowerChar s"

definition isWhiteSpace :: "char \<Rightarrow> bool" where
  \<comment> \<open>TAB, LF, VT, FF, CR, SP and NBSP: what \<^verbatim>\<open>trim\<close> strips, below 256\<close>
  "isWhiteSpace c =
     (let n = (of_char c :: nat) in (9 \<le> n \<and> n \<le> 13) \<or> n = 32 \<or> n = 160)"

definition trim :: "string \<Rightarrow> string" where
  "trim s = rev (dropWhile isWhiteSpace (rev (dropWhile isWhiteSpace s)))"

text \<open>
  \<^verbatim>\<open>s.split(' ')\<close>: cut at every single space character. The result is never empty:
  the empty string gives one empty token, and two adjacent spaces give an empty token
  between them.
\<close>

fun split :: "string \<Rightarrow> string list" where
  "split [] = [[]]"
| "split (c # cs) =
     (if c = CHR '' '' then [] # split cs
      else (case split cs of
              w # ws \<Rightarrow> (c # w) # ws
            | [] \<Rightarrow> [[c]]))"

text \<open>
  In the second equation \<open>c\<close> joins the first token of the rest; the rest always has a
  first token, so the \<open>[]\<close> case is never taken (lemma \<open>split_nonempty\<close> below).
\<close>

text \<open>\<^verbatim>\<open>xs.join(sep)\<close>\<close>

fun join :: "string \<Rightarrow> string list \<Rightarrow> string" where
  "join sep [] = []"
| "join sep [x] = x"
| "join sep (x # y # ys) = x @ sep @ join sep (y # ys)"

text \<open>\<^verbatim>\<open>s.includes(sub)\<close>: \<open>sub\<close> occurs in \<open>s\<close> as a contiguous block.\<close>

fun includesStr :: "string \<Rightarrow> string \<Rightarrow> bool" where
  "includesStr [] sub = (sub = [])"
| "includesStr (c # cs) sub = (prefix sub (c # cs) \<or> includesStr cs sub)"

text \<open>
  A JavaScript number is a double. The source does two things with a year: it tests its
  truthiness and it prints it (\<^verbatim>\<open>`${year}`\<close>). The model keeps what these two see:
  \<^item> \<open>Integer w\<close>: an integer \<open>n\<close> with \<open>- 2^53 \<le> n < 2^53\<close>, held as the 54-bit word
    whose signed value \<open>sint w\<close> is \<open>n\<close>. In this range every integer is a double of its
    own and JavaScript prints it as its decimal digits, with a minus sign when negative.
    Both zeros of JavaScript are \<open>Integer 0\<close>: they are falsy and print as \<open>0\<close>.
  \<^item> \<open>NaN\<close>: falsy. \<^verbatim>\<open>new Date(s).getFullYear()\<close> gives it for a timestamp that cannot
    be parsed.
  \<^item> \<open>OtherNumber s\<close>: any other number (a fraction, an integer outside the range above,
    an infinity). It is truthy; \<open>s\<close> is its printed form, which the model takes as given
    instead of computing the shortest digits of a double.
\<close>

datatype number = Integer "54 word" | NaN | OtherNumber string

definition digitChar :: "nat \<Rightarrow> char" where
  "digitChar d = char_of (48 + d)"

fun natToString :: "nat \<Rightarrow> string" where
  "natToString n =
     (if n < 10 then [digitChar n]
      else natToString (n div 10) @ [digitChar (n mod 10)])"

declare natToString.simps [simp del]

definition intToString :: "int \<Rightarrow> string" where
  "intToString i =
     (if i < 0 then CHR ''-'' # natToString (nat (- i)) else natToString (nat i))"

fun numberToString :: "number \<Rightarrow> string" where
  "numberToString (Integer w) = intToString (sint w)"
| "numberToString NaN = ''NaN''"
| "numberToString (OtherNumber s) = s"

declare numberToString.simps [simp del]

text \<open>
  Truthiness, as the conditions of the source use it: an absent value, the empty string,
  the number 0 and \<open>NaN\<close> are falsy.
\<close>

definition truthyStr :: "string option \<Rightarrow> bool" where
  "truthyStr v = (case v of None \<Rightarrow> False | Some s \<Rightarrow> s \<noteq> [])"

fun truthyNum :: "number option \<Rightarrow> bool" where
  "truthyNum None = False"
| "truthyNum (Some (Integer w)) = (w \<noteq> 0)"
| "truthyNum (Some NaN) = False"
| "truthyNum (Some (OtherNumber s)) = True"

text \<open>\<^verbatim>\<open>v || d\<close> on an optional string\<close>

definition orElse :: "string option \<Rightarrow> string \<Rightarrow> string" where
  "orElse v d = (if truthyStr v then the v else d)"


section \<open>The citation model\<close>

datatype citation_type = Book | Article | Paper | Unknown

datatype citation_source = Crossref | GoogleBooks | OpenLibrary

record UnifiedCitation =
  title :: string
  authors :: "string list"
  year :: "number option"
  publisher :: "string option"
  doi :: "string option"
  isbn :: "string list option"
  url :: "string option"
  abstract :: "string option"
  ctype :: citation_type
  source :: citation_source
  language :: "string option"

text \<open>
  The fields of a Crossref \<^verbatim>\<open>Reference\<close> that \<^verbatim>\<open>fromCrossref\<close> reads. The source reads
  all of them except \<^verbatim>\<open>type\<close> as possibly absent (\<^verbatim>\<open>?.\<close>, \<^verbatim>\<open>||\<close>).
\<close>

record CrossrefAuthor =
  given :: "string option"
  family :: "string option"

record CrossrefCreated =
  date_time :: "string option"

record CrossrefPrimary =
  primary_URL :: "string option"

record CrossrefResource =
  primary :: "CrossrefPrimary option"

record Reference =
  ref_publisher :: "string option"
  ref_abstract :: "string option"
  ref_DOI :: "string option"
  ref_type :: string
  ref_created :: "CrossrefCreated option"
  ref_title :: "string list option"
  ref_author :: "CrossrefAuthor list option"
  ref_language :: "string option"
  ref_resource :: "CrossrefResource option"
  ref_ISBN :: "string list option"
  ref_URL :: "string option"


section \<open>Source adapter for Crossref\<close>

definition mapCrossrefType :: "string \<Rightarrow> citation_type" where
  "mapCrossrefType t =
     (let lowerType = toLowerCase t
      in if includesStr lowerType ''book'' then Book
         else if includesStr lowerType ''journal'' \<or> includesStr lowerType ''article'' then Article
         else if includesStr lowerType ''proceedings'' \<or> includesStr lowerType ''paper'' then Paper
         else Unknown)"

definition crossrefAuthorName :: "CrossrefAuthor \<Rightarrow> string" where
  "crossrefAuthorName a =
     (let g = orElse (given a) ''''; f = orElse (family a) ''''
      in trim (g @ '' '' @ f))"

text \<open>
  \<open>getFullYear\<close> stands for \<^verbatim>\<open>new Date(s).getFullYear()\<close>, the calendar year of a
  timestamp in the local time zone; it is a parameter of the model, and \<open>NaN\<close> is among
  its values.
\<close>

definition fromCrossref :: "(string \<Rightarrow> number) \<Rightarrow> Reference \<Rightarrow> UnifiedCitation" where
  "fromCrossref getFullYear r =
     (let authors' = (case ref_author r of None \<Rightarrow> [] | Some as \<Rightarrow> map crossrefAuthorName as);
          dt = (case ref_created r of None \<Rightarrow> None | Some c \<Rightarrow> date_time c);
          year' = (if truthyStr dt then Some (getFullYear (the dt)) else None);
          first = (case ref_title r of None \<Rightarrow> None | Some [] \<Rightarrow> None | Some (t # _) \<Rightarrow> Some t);
          secondary = (case ref_resource r of None \<Rightarrow> None
                       | Some res \<Rightarrow> (case primary res of None \<Rightarrow> None
                                      | Some p \<Rightarrow> primary_URL p))
      in \<lparr> title = orElse first ''Untitled'',
           authors = authors',
           year = year',
           publisher = ref_publisher r,
           doi = ref_DOI r,
           isbn = ref_ISBN r,
           url = (if truthyStr (ref_URL r) then ref_URL r else secondary),
           abstract = ref_abstract r,
           ctype = mapCrossrefType (ref_type r),
           source = Crossref,
           language = ref_language r \<rparr>)"


section \<open>Name formatting\<close>

definition formatAuthorLastFirst :: "string \<Rightarrow> string" where
  "formatAuthorLastFirst name =
     (let parts = split (trim name)
      in if length parts = 1 then hd parts
         else (let lastName = last parts;
                   firstNames = join '' '' (butlast parts)
               in lastName @ '', '' @ firstNames))"

fun formatAuthorsAPA :: "string list \<Rightarrow> string" where
  "formatAuthorsAPA [] = ''Unknown Author''"
| "formatAuthorsAPA [a] = formatAuthorLastFirst a"
| "formatAuthorsAPA [a, b] = formatAuthorLastFirst a @ '' & '' @ formatAuthorLastFirst b"
| "formatAuthorsAPA as =
     join '', '' (map formatAuthorLastFirst (butlast as)) @ '', & ''
       @ formatAuthorLastFirst (last as)"

fun formatAuthorsMLA :: "string list \<Rightarrow> string" where
  "formatAuthorsMLA [] = ''Unknown Author''"
| "formatAuthorsMLA [a] = formatAuthorLastFirst a"
| "formatAuthorsMLA [a, b] = formatAuthorLastFirst a @ '', and '' @ b"
| "formatAuthorsMLA (a # _) = formatAuthorLastFirst a @ '', et al''"

fun formatAuthorsChicago :: "string list \<Rightarrow> string" where
  "formatAuthorsChicago [] = ''Unknown Author''"
| "formatAuthorsChicago [a] = formatAuthorLastFirst a"
| "formatAuthorsChicago [a, b] = formatAuthorLastFirst a @ '' and '' @ b"
| "formatAuthorsChicago as =
     join '', '' (map formatAuthorLastFirst (butlast as)) @ '', and '' @ last as"

fun formatAuthorsHarvard :: "string list \<Rightarrow> string" where
  "formatAuthorsHarvard [] = ''Unknown Author''"
| "formatAuthorsHarvard [a] = formatAuthorLastFirst a"
| "formatAuthorsHarvard [a, b] = formatAuthorLastFirst a @ '' and '' @ formatAuthorLastFirst b"
| "formatAuthorsHarvard (a # _) = formatAuthorLastFirst a @ '' et al.''"


section \<open>Style renderers\<close>

definition generateBibTeXKey :: "UnifiedCitation \<Rightarrow> string" where
  "generateBibTeXKey c =
     (let author = orElse (case authors c of [] \<Rightarrow> None
                           | a # _ \<Rightarrow> Some (toLowerCase (last (split a)))) ''unknown'';
          year' = (if truthyNum (year c) then numberToString (the (year c)) else ''nodate'');
          titleWord = orElse (Some (toLowerCase (hd (split (title c))))) ''untitled''
      in author @ year' @ titleWord)"

definition italic :: "string \<Rightarrow> string" where
  "italic t = ''<i>'' @ t @ ''</i>''"

definition quoted :: "string \<Rightarrow> string" where
  "quoted t = [CHR 0x22] @ t @ [CHR 0x22]"

definition toAPA :: "UnifiedCitation \<Rightarrow> string" where
  "toAPA c =
     (let authors' = formatAuthorsAPA (authors c);
          year' = (if truthyNum (year c) then ''('' @ numberToString (the (year c)) @ '')''
                   else ''(n.d.)'');
          title' = (if ctype c = Book then italic (title c) else title c);
          result = authors' @ '' '' @ year' @ ''. '' @ title' @ ''.'';
          result = (if truthyStr (publisher c) then result @ '' '' @ the (publisher c) @ ''.''
                    else result);
          result = (if truthyStr (doi c) then result @ '' https://doi.org/'' @ the (doi c)
                    else if truthyStr (url c) then result @ '' '' @ the (url c)
                    else result)
      in result)"

definition toMLA :: "UnifiedCitation \<Rightarrow> string" where
  "toMLA c =
     (let authors' = formatAuthorsMLA (authors c);
          title' = (if ctype c = Book then italic (title c) else quoted (title c));
          result = authors' @ ''. '' @ title' @ ''.'';
          result = (if truthyStr (publisher c) then result @ '' '' @ the (publisher c)
                    else result);
          result = (if truthyNum (year c) then result @ '', '' @ numberToString (the (year c))
                    else result);
          result = result @ ''.'';
          result = (if truthyStr (url c) then result @ '' '' @ the (url c) @ ''.''
                    else result)
      in result)"

definition toChicago :: "UnifiedCitation \<Rightarrow> string" where
  "toChicago c =
     (let authors' = formatAuthorsChicago (authors c);
          year' = (if truthyNum (year c) then numberToString (the (year c)) else ''n.d.'');
          title' = (if ctype c = Book then italic (title c) else quoted (title c));
          result = authors' @ ''. '' @ year' @ ''. '' @ title' @ ''.'';
          result = (if truthyStr (publisher c) then result @ '' '' @ the (publisher c) @ ''.''
                    else result);
          result = (if truthyStr (doi c) then result @ '' https://doi.org/'' @ the (doi c) @ ''.''
                    else if truthyStr (url c) then result @ '' '' @ the (url c) @ ''.''
                    else result)
      in result)"

definition toHarvard :: "UnifiedCitation \<Rightarrow> string" where
  "toHarvard c =
     (let authors' = formatAuthorsHarvard (authors c);
          year' = (if truthyNum (year c) then numberToString (the (year c)) else ''n.d.'');
          title' = (if ctype c = Book then italic (title c) else title c);
          result = authors' @ '' ('' @ year' @ '') '' @ title' @ ''.'';
          result = (if truthyStr (publisher c) then result @ '' '' @ the (publisher c) @ ''.''
                    else result);
          result = (if truthyStr (url c) then result @ '' Available at: '' @ the (url c)
                    else result)
      in result)"

definition toBibTeX :: "UnifiedCitation \<Rightarrow> string" where
  "toBibTeX c =
     (let key = generateBibTeXKey c;
          type = (if ctype c = Book then ''book'' else ''article'');
          bibtex = ''@'' @ type @ ''{'' @ key @ '',\<newline>'';
          bibtex = bibtex @ ''  title={'' @ title c @ ''},\<newline>'';
          bibtex = (if length (authors c) > 0
                    then bibtex @ ''  author={'' @ join '' and '' (authors c) @ ''},\<newline>''
                    else bibtex);
          bibtex = (if truthyNum (year c)
                    then bibtex @ ''  year={'' @ numberToString (the (year c)) @ ''},\<newline>''
                    else bibtex);
          bibtex = (if truthyStr (publisher c)
                    then bibtex @ ''  publisher={'' @ the (publisher c) @ ''},\<newline>''
                    else bibtex);
          bibtex = (if truthyStr (doi c)
                    then bibtex @ ''  doi={'' @ the (doi c) @ ''},\<newline>''
                    else bibtex);
          bibtex = (case isbn c of
                      Some (i # _) \<Rightarrow> bibtex @ ''  isbn={'' @ i @ ''},\<newline>''
                    | _ \<Rightarrow> bibtex);
          bibtex = (if truthyStr (url c)
                    then bibtex @ ''  url={'' @ the (url c) @ ''},\<newline>''
                    else bibtex);
          bibtex = bibtex @ ''}''
      in bibtex)"


section \<open>Sample citations\<close>

text \<open>The citations of \<^verbatim>\<open>formatter.test.ts\<close> that the instances below evaluate.\<close>

definition algorithmsBook :: UnifiedCitation where
  "algorithmsBook =
     \<lparr> title = ''Introduction to Algorithms'',
       authors = [''Thomas H. Cormen'', ''Charles E. Leiserson''],
       year = Some (Integer 2009), publisher = Some ''MIT Press'', doi = None,
       isbn = Some [''9780262033848''], url = None, abstract = None,
       ctype = Book, source = GoogleBooks, language = None \<rparr>"

definition undatedWork :: UnifiedCitation where
  "undatedWork =
     \<lparr> title = ''Undated Work'', authors = [''John Doe''],
       year = None, publisher = None, doi = None, isbn = None, url = None,
       abstract = None, ctype = Book, source = OpenLibrary, language = None \<rparr>"

definition anonymousWork :: UnifiedCitation where
  "anonymousWork =
     \<lparr> title = ''Anonymous Work'', authors = [],
       year = Some (Integer 2020), publisher = None, doi = None, isbn = None, url = None,
       abstract = None, ctype = Book, source = OpenLibrary, language = None \<rparr>"

definition researchPaper :: UnifiedCitation where
  "researchPaper =
     \<lparr> title = ''Research Paper'',
       authors = [''Alice Johnson'', ''Bob Williams'', ''Carol Davis''],
       year = Some (Integer 2022), publisher = None, doi = None, isbn = None, url = None,
       abstract = None, ctype = Article, source = Crossref, language = None \<rparr>"

definition webArticle :: UnifiedCitation where
  "webArticle =
     \<lparr> title = ''Web Article'', authors = [''John Doe''],
       year = Some (Integer 2023), publisher = None, doi = None, isbn = None,
       url = Some ''https://example.com/article'', abstract = None,
       ctype = Article, source = Crossref, language = None \<rparr>"


text \<open>The Crossref record of \<^verbatim>\<open>formatter.test.ts\<close>, with the fields the adapter reads.\<close>

definition mockCrossrefReference :: Reference where
  "mockCrossrefReference =
     \<lparr> ref_publisher = Some ''MIT Press'',
       ref_abstract = Some ''A comprehensive introduction to machine learning.'',
       ref_DOI = Some ''10.1162/neco_a_01199'',
       ref_type = ''journal-article'',
       ref_created = Some \<lparr> date_time = Some ''2023-01-15T10:00:00Z'' \<rparr>,
       ref_title = Some [''Deep Learning Fundamentals''],
       ref_author = Some [\<lparr> given = Some ''John'', family = Some ''Smith'' \<rparr>,
                          \<lparr> given = Some ''Jane'', family = Some ''Doe'' \<rparr>],
       ref_language = Some ''en'',
       ref_resource =
         Some \<lparr> primary = Some \<lparr> primary_URL = Some ''https://example.com/article'' \<rparr> \<rparr>,
       ref_ISBN = Some [''978-0-262-03685-3''],
       ref_URL = Some ''https://example.com/article'' \<rparr>"


section \<open>The specification's wording\<close>

text \<open>
  Three operations as the specification words them, to be compared with the functions
  of the source. They are not translations of code.
\<close>

text \<open>
  Type classification by substring checks on the type string itself, in the order
  book; journal or article; proceedings or paper; unknown.
\<close>

definition spec_mapCrossrefType :: "string \<Rightarrow> citation_type" where
  "spec_mapCrossrefType t =
     (if sublist ''book'' t then Book
      else if sublist ''journal'' t \<or> sublist ''article'' t then Article
      else if sublist ''proceedings'' t \<or> sublist ''paper'' t then Paper
      else Unknown)"

text \<open>
  Name formatting by splitting on whitespace: the tokens are the maximal runs of
  characters that are not whitespace. One token: the name unchanged. Otherwise the last
  token, a comma and a space, and the preceding tokens joined by single spaces. (The
  specification does not say what a name without any token gives; it is returned
  unchanged here.)
\<close>

fun wsTokens :: "string \<Rightarrow> string \<Rightarrow> string list" where
  "wsTokens cur [] = (if cur = [] then [] else [cur])"
| "wsTokens cur (c # cs) =
     (if isWhiteSpace c then (if cur = [] then wsTokens [] cs else cur # wsTokens [] cs)
      else wsTokens (cur @ [c]) cs)"

definition spec_formatAuthorLastFirst :: "string \<Rightarrow> string" where
  "spec_formatAuthorLastFirst name =
     (let tokens = wsTokens [] name
      in if length tokens \<le> 1 then name
         else last tokens @ '', '' @ join '' '' (butlast tokens))"

text \<open>
  MLA assembly with the publisher, the year and the URL emitted whenever they are
  present, that is, whenever the optional field holds a value.
\<close>

definition spec_toMLA :: "UnifiedCitation \<Rightarrow> string" where
  "spec_toMLA c =
     formatAuthorsMLA (authors c) @ ''. ''
     @ (if ctype c = Book then italic (title c) else quoted (title c)) @ ''.''
     @ (case publisher c of None \<Rightarrow> [] | Some p \<Rightarrow> '' '' @ p)
     @ (case year c of None \<Rightarrow> [] | Some y \<Rightarrow> '', '' @ numberToString y)
     @ ''.''
     @ (case url c of None \<Rightarrow> [] | Some u \<Rightarrow> '' '' @ u @ ''.'')"


section \<open>Properties of the string primitives\<close>

text \<open>The integers that \<open>Integer\<close> holds are those from \<open>- 2^53\<close> up to \<open>2^53 - 1\<close>.\<close>

lemma Integer_range: "- (2 ^ 53) \<le> sint (w :: 54 word) \<and> sint w < 2 ^ 53"
  using sint_ge [of w] sint_lt [of w] by simp

lemma split_nonempty: "split s \<noteq> []"
  by (cases s) (simp_all split: list.split)

lemma includesStr_sublist: "includesStr s sub = sublist sub s"
  by (induction s) (simp_all add: sublist_Cons_right)

lemma split_no_space: "CHR '' '' \<notin> set s \<Longrightarrow> split s = [s]"
  by (induction s) auto

lemma split_append_space: "split (g @ CHR '' '' # f) = split g @ split f"
proof (induction g)
  case Nil
  show ?case by simp
next
  case (Cons c g)
  obtain y ys where r: "split g = y # ys"
    using split_nonempty [of g] by (cases "split g") auto
  show ?case using Cons r by simp
qed

lemma join_Cons_head: "join sep ((c # y) # ys) = c # join sep (y # ys)"
  by (cases ys) simp_all

text \<open>Joining the tokens of \<open>split\<close> with single spaces gives the string back.\<close>

lemma join_split: "join '' '' (split s) = s"
proof (induction s)
  case Nil
  show ?case by simp
next
  case (Cons c s)
  obtain y ys where r: "split s = y # ys"
    using split_nonempty [of s] by (cases "split s") auto
  show ?case
  proof (cases "c = CHR '' ''")
    case True
    then show ?thesis using Cons r by simp
  next
    case False
    then show ?thesis using Cons r by (simp add: join_Cons_head)
  qed
qed

lemma formatAuthorLastFirst_single:
  "CHR '' '' \<notin> set (trim name) \<Longrightarrow> formatAuthorLastFirst name = trim name"
  by (simp add: formatAuthorLastFirst_def split_no_space)

lemma formatAuthorLastFirst_swap:
  assumes "trim name = g @ CHR '' '' # f" and "CHR '' '' \<notin> set f"
  shows "formatAuthorLastFirst name = f @ '', '' @ g"
proof -
  have s: "split (trim name) = split g @ [f]"
    using assms by (simp add: split_append_space split_no_space)
  have "length (split g) \<noteq> 0" using split_nonempty [of g] by simp
  then have l: "length (split (trim name)) \<noteq> 1" using s by simp
  show ?thesis using s l by (simp add: formatAuthorLastFirst_def Let_def join_split)
qed


section \<open>The renderers as one concatenation\<close>

text \<open>
  Each renderer builds its result by appending to a variable. Written as one expression,
  the output is the concatenation of its segments, an omitted segment being empty.
\<close>

lemma toAPA_shape:
  "toAPA c =
     formatAuthorsAPA (authors c) @ '' ''
     @ (if truthyNum (year c) then ''('' @ numberToString (the (year c)) @ '')'' else ''(n.d.)'')
     @ ''. '' @ (if ctype c = Book then italic (title c) else title c) @ ''.''
     @ (if truthyStr (publisher c) then '' '' @ the (publisher c) @ ''.'' else [])
     @ (if truthyStr (doi c) then '' https://doi.org/'' @ the (doi c)
        else if truthyStr (url c) then '' '' @ the (url c) else [])"
  by (simp add: toAPA_def Let_def)

lemma toMLA_shape:
  "toMLA c =
     formatAuthorsMLA (authors c) @ ''. ''
     @ (if ctype c = Book then italic (title c) else quoted (title c)) @ ''.''
     @ (if truthyStr (publisher c) then '' '' @ the (publisher c) else [])
     @ (if truthyNum (year c) then '', '' @ numberToString (the (year c)) else [])
     @ ''.''
     @ (if truthyStr (url c) then '' '' @ the (url c) @ ''.'' else [])"
  by (simp add: toMLA_def Let_def)

lemma toChicago_shape:
  "toChicago c =
     formatAuthorsChicago (authors c) @ ''. ''
     @ (if truthyNum (year c) then numberToString (the (year c)) else ''n.d.'')
     @ ''. '' @ (if ctype c = Book then italic (title c) else quoted (title c)) @ ''.''
     @ (if truthyStr (publisher c) then '' '' @ the (publisher c) @ ''.'' else [])
     @ (if truthyStr (doi c) then '' https://doi.org/'' @ the (doi c) @ ''.''
        else if truthyStr (url c) then '' '' @ the (url c) @ ''.'' else [])"
  by (simp add: toChicago_def Let_def)

lemma toHarvard_shape:
  "toHarvard c =
     formatAuthorsHarvard (authors c) @ '' (''
     @ (if truthyNum (year c) then numberToString (the (year c)) else ''n.d.'')
     @ '') '' @ (if ctype c = Book then italic (title c) else title c) @ ''.''
     @ (if truthyStr (publisher c) then '' '' @ the (publisher c) @ ''.'' else [])
     @ (if truthyStr (url c) then '' Available at: '' @ the (url c) else [])"
  by (simp add: toHarvard_def Let_def)

lemma toBibTeX_shape:
  "toBibTeX c =
     ''@'' @ (if ctype c = Book then ''book'' else ''article'') @ ''{''
     @ generateBibTeXKey c @ '',\<newline>''
     @ ''  title={'' @ title c @ ''},\<newline>''
     @ (if authors c \<noteq> [] then ''  author={'' @ join '' and '' (authors c) @ ''},\<newline>''
        else [])
     @ (if truthyNum (year c) then ''  year={'' @ numberToString (the (year c)) @ ''},\<newline>''
        else [])
     @ (if truthyStr (publisher c) then ''  publisher={'' @ the (publisher c) @ ''},\<newline>''
        else [])
     @ (if truthyStr (doi c) then ''  doi={'' @ the (doi c) @ ''},\<newline>'' else [])
     @ (case isbn c of Some (i # _) \<Rightarrow> ''  isbn={'' @ i @ ''},\<newline>'' | _ \<Rightarrow> [])
     @ (if truthyStr (url c) then ''  url={'' @ the (url c) @ ''},\<newline>'' else [])
     @ ''}''"
  by (simp add: toBibTeX_def Let_def split: option.split list.split)


section \<open>BibTeX entry type\<close>

text \<open>
  Claim C5. For every citation, the output of \<open>toBibTeX\<close> starts with \<open>@book{\<close> exactly
  when the citation's type is book, and starts with \<open>@article{\<close> for every other type
  (paper, article and unknown).
\<close>

theorem toBibTeX_entry_type:
  "(prefix ''@book{'' (toBibTeX c) \<longleftrightarrow> ctype c = Book)
   \<and> (ctype c \<noteq> Book \<longrightarrow> prefix ''@article{'' (toBibTeX c))"
  by (simp add: toBibTeX_shape)

theorem toBibTeX_entry_type_witness:
  "prefix ''@book{'' (toBibTeX algorithmsBook)
   \<and> ctype researchPaper \<noteq> Book
   \<and> prefix ''@article{'' (toBibTeX researchPaper)
   \<and> \<not> prefix ''@book{'' (toBibTeX researchPaper)"
  using toBibTeX_entry_type [of algorithmsBook] toBibTeX_entry_type [of researchPaper]
  by (simp add: algorithmsBook_def researchPaper_def)


section \<open>Placeholders for a missing author list and a missing year\<close>

text \<open>
  Claim C6. For every citation with an empty author list, the author segment of
  \<open>toAPA\<close>, \<open>toMLA\<close>, \<open>toChicago\<close> and \<open>toHarvard\<close> is \<open>Unknown Author\<close>: each style's
  author formatter returns it, and each rendered citation begins with it, followed by
  the style's separator.
\<close>

theorem unknown_author_segment:
  "authors c = [] \<Longrightarrow>
     formatAuthorsAPA (authors c) = ''Unknown Author''
     \<and> formatAuthorsMLA (authors c) = ''Unknown Author''
     \<and> formatAuthorsChicago (authors c) = ''Unknown Author''
     \<and> formatAuthorsHarvard (authors c) = ''Unknown Author''
     \<and> prefix ''Unknown Author '' (toAPA c)
     \<and> prefix ''Unknown Author. '' (toMLA c)
     \<and> prefix ''Unknown Author. '' (toChicago c)
     \<and> prefix ''Unknown Author ('' (toHarvard c)"
  by (simp add: toAPA_shape toMLA_shape toChicago_shape toHarvard_shape)

theorem unknown_author_segment_witness:
  "authors anonymousWork = []
   \<and> formatAuthorsAPA (authors anonymousWork) = ''Unknown Author''
   \<and> prefix ''Unknown Author '' (toAPA anonymousWork)
   \<and> prefix ''Unknown Author. '' (toMLA anonymousWork)
   \<and> prefix ''Unknown Author. '' (toChicago anonymousWork)
   \<and> prefix ''Unknown Author ('' (toHarvard anonymousWork)"
proof -
  have h: "authors anonymousWork = []" by (simp add: anonymousWork_def)
  show ?thesis using h unknown_author_segment [OF h] by simp
qed

text \<open>
  Claim C7. For every citation whose year is absent, \<open>toAPA\<close> renders \<open>(n.d.)\<close> in the
  year position (after the authors and a space, before the period that precedes the
  title), and \<open>toChicago\<close> and \<open>toHarvard\<close> render the literal \<open>n.d.\<close> in theirs
  (Chicago between two periods, Harvard in parentheses).
\<close>

theorem absent_year_placeholder:
  "year c = None \<Longrightarrow>
     prefix (formatAuthorsAPA (authors c) @ '' '' @ ''(n.d.)'' @ ''. '') (toAPA c)
     \<and> prefix (formatAuthorsChicago (authors c) @ ''. '' @ ''n.d.'' @ ''. '') (toChicago c)
     \<and> prefix (formatAuthorsHarvard (authors c) @ '' ('' @ ''n.d.'' @ '') '') (toHarvard c)"
  by (simp add: toAPA_shape toChicago_shape toHarvard_shape)

theorem absent_year_placeholder_witness:
  "year undatedWork = None
   \<and> prefix (formatAuthorsAPA (authors undatedWork) @ '' (n.d.). '') (toAPA undatedWork)
   \<and> prefix (formatAuthorsChicago (authors undatedWork) @ ''. n.d.. '') (toChicago undatedWork)
   \<and> prefix (formatAuthorsHarvard (authors undatedWork) @ '' (n.d.) '') (toHarvard undatedWork)"
proof -
  have h: "year undatedWork = None" by (simp add: undatedWork_def)
  show ?thesis using h absent_year_placeholder [OF h] by simp
qed



section \<open>A complete BibTeX entry\<close>

lemma toLowerCase_Cormen: "toLowerCase ''Cormen'' = ''cormen''"
  by code_simp

lemma toLowerCase_Introduction: "toLowerCase ''Introduction'' = ''introduction''"
  by code_simp

lemma numberToString_2009: "numberToString (Integer 2009) = ''2009''"
  by code_simp

text \<open>
  Claim C2. For the citation with title \<open>Introduction to Algorithms\<close>, authors
  \<open>Thomas H. Cormen\<close> and \<open>Charles E. Leiserson\<close>, year 2009, publisher \<open>MIT Press\<close>,
  one ISBN \<open>9780262033848\<close> and type book (no DOI, no URL; any source, abstract and
  language), \<open>toBibTeX\<close> returns exactly the entry below: key \<open>cormen2009introduction\<close>,
  then the fields title, author, year, publisher, isbn in that order, each on a line of
  its own ending in a comma, and a last line that holds only the closing brace.
\<close>

theorem toBibTeX_algorithms_book:
  "toBibTeX \<lparr> title = ''Introduction to Algorithms'',
       authors = [''Thomas H. Cormen'', ''Charles E. Leiserson''],
       year = Some (Integer 2009), publisher = Some ''MIT Press'', doi = None,
       isbn = Some [''9780262033848''], url = None, abstract = a,
       ctype = Book, source = s, language = l \<rparr>
   = ''@book{cormen2009introduction,\<newline>  title={Introduction to Algorithms},\<newline>  author={Thomas H. Cormen and Charles E. Leiserson},\<newline>  year={2009},\<newline>  publisher={MIT Press},\<newline>  isbn={9780262033848},\<newline>}''"
  by (simp add: toBibTeX_shape generateBibTeXKey_def Let_def orElse_def truthyStr_def
      toLowerCase_Cormen toLowerCase_Introduction numberToString_2009)


section \<open>The year 0\<close>

lemma truthyNum_zero: "\<not> truthyNum (Some (Integer 0))"
  by simp

lemma truthyNum_None: "\<not> truthyNum None"
  by simp

lemma generateBibTeXKey_year_zero:
  "year c = Some (Integer 0) \<Longrightarrow> generateBibTeXKey c = generateBibTeXKey (c\<lparr>year := None\<rparr>)"
  by (simp add: generateBibTeXKey_def truthyNum_zero truthyNum_None)

text \<open>
  Claim C10. For every citation whose year is 0, every renderer returns what it returns
  for the same citation with the year absent: \<open>toAPA\<close> renders \<open>(n.d.)\<close>, \<open>toChicago\<close>
  and \<open>toHarvard\<close> render \<open>n.d.\<close>, \<open>toMLA\<close> has no year segment, and \<open>toBibTeX\<close> has no
  year field and builds its key with \<open>nodate\<close>.
\<close>

theorem year_zero_as_absent:
  assumes z: "year c = Some (Integer 0)"
  shows
    "toAPA c = toAPA (c\<lparr>year := None\<rparr>)
     \<and> toMLA c = toMLA (c\<lparr>year := None\<rparr>)
     \<and> toChicago c = toChicago (c\<lparr>year := None\<rparr>)
     \<and> toHarvard c = toHarvard (c\<lparr>year := None\<rparr>)
     \<and> toBibTeX c = toBibTeX (c\<lparr>year := None\<rparr>)
     \<and> prefix (formatAuthorsAPA (authors c) @ '' '' @ ''(n.d.)'' @ ''. '') (toAPA c)
     \<and> prefix (formatAuthorsChicago (authors c) @ ''. '' @ ''n.d.'' @ ''. '') (toChicago c)
     \<and> prefix (formatAuthorsHarvard (authors c) @ '' ('' @ ''n.d.'' @ '') '') (toHarvard c)
     \<and> toMLA c =
         formatAuthorsMLA (authors c) @ ''. ''
         @ (if ctype c = Book then italic (title c) else quoted (title c)) @ ''.''
         @ (if truthyStr (publisher c) then '' '' @ the (publisher c) else [])
         @ ''.''
         @ (if truthyStr (url c) then '' '' @ the (url c) @ ''.'' else [])
     \<and> generateBibTeXKey c =
         orElse (case authors c of [] \<Rightarrow> None
                 | a # _ \<Rightarrow> Some (toLowerCase (last (split a)))) ''unknown''
         @ ''nodate''
         @ orElse (Some (toLowerCase (hd (split (title c))))) ''untitled''
     \<and> toBibTeX c =
         ''@'' @ (if ctype c = Book then ''book'' else ''article'') @ ''{''
         @ generateBibTeXKey c @ '',\<newline>''
         @ ''  title={'' @ title c @ ''},\<newline>''
         @ (if authors c \<noteq> [] then ''  author={'' @ join '' and '' (authors c) @ ''},\<newline>''
            else [])
         @ (if truthyStr (publisher c) then ''  publisher={'' @ the (publisher c) @ ''},\<newline>''
            else [])
         @ (if truthyStr (doi c) then ''  doi={'' @ the (doi c) @ ''},\<newline>'' else [])
         @ (case isbn c of Some (i # _) \<Rightarrow> ''  isbn={'' @ i @ ''},\<newline>'' | _ \<Rightarrow> [])
         @ (if truthyStr (url c) then ''  url={'' @ the (url c) @ ''},\<newline>'' else [])
         @ ''}''"
proof -
  note tn = truthyNum_zero truthyNum_None
  have apa: "toAPA c = toAPA (c\<lparr>year := None\<rparr>)"
    using z by (simp add: toAPA_shape tn)
  have mla: "toMLA c = toMLA (c\<lparr>year := None\<rparr>)"
    using z by (simp add: toMLA_shape tn)
  have chi: "toChicago c = toChicago (c\<lparr>year := None\<rparr>)"
    using z by (simp add: toChicago_shape tn)
  have har: "toHarvard c = toHarvard (c\<lparr>year := None\<rparr>)"
    using z by (simp add: toHarvard_shape tn)
  have bib: "toBibTeX c = toBibTeX (c\<lparr>year := None\<rparr>)"
    using z by (simp add: toBibTeX_shape generateBibTeXKey_year_zero tn)
  have apa_nd: "prefix (formatAuthorsAPA (authors c) @ '' '' @ ''(n.d.)'' @ ''. '') (toAPA c)"
    using z by (simp add: toAPA_shape tn)
  have chi_nd: "prefix (formatAuthorsChicago (authors c) @ ''. '' @ ''n.d.'' @ ''. '') (toChicago c)"
    using z by (simp add: toChicago_shape tn)
  have har_nd: "prefix (formatAuthorsHarvard (authors c) @ '' ('' @ ''n.d.'' @ '') '') (toHarvard c)"
    using z by (simp add: toHarvard_shape tn)
  have mla_no_year: "toMLA c =
         formatAuthorsMLA (authors c) @ ''. ''
         @ (if ctype c = Book then italic (title c) else quoted (title c)) @ ''.''
         @ (if truthyStr (publisher c) then '' '' @ the (publisher c) else [])
         @ ''.''
         @ (if truthyStr (url c) then '' '' @ the (url c) @ ''.'' else [])"
    using z by (simp add: toMLA_shape tn)
  have key: "generateBibTeXKey c =
         orElse (case authors c of [] \<Rightarrow> None
                 | a # _ \<Rightarrow> Some (toLowerCase (last (split a)))) ''unknown''
         @ ''nodate''
         @ orElse (Some (toLowerCase (hd (split (title c))))) ''untitled''"
    using z by (simp add: generateBibTeXKey_def tn)
  have bib_no_year: "toBibTeX c =
         ''@'' @ (if ctype c = Book then ''book'' else ''article'') @ ''{''
         @ generateBibTeXKey c @ '',\<newline>''
         @ ''  title={'' @ title c @ ''},\<newline>''
         @ (if authors c \<noteq> [] then ''  author={'' @ join '' and '' (authors c) @ ''},\<newline>''
            else [])
         @ (if truthyStr (publisher c) then ''  publisher={'' @ the (publisher c) @ ''},\<newline>''
            else [])
         @ (if truthyStr (doi c) then ''  doi={'' @ the (doi c) @ ''},\<newline>'' else [])
         @ (case isbn c of Some (i # _) \<Rightarrow> ''  isbn={'' @ i @ ''},\<newline>'' | _ \<Rightarrow> [])
         @ (if truthyStr (url c) then ''  url={'' @ the (url c) @ ''},\<newline>'' else [])
         @ ''}''"
    using z by (simp add: toBibTeX_shape tn)
  show ?thesis
    by (intro conjI; fact apa mla chi har bib apa_nd chi_nd har_nd mla_no_year key bib_no_year)
qed

lemma undatedWork_outputs:
  "toAPA undatedWork = ''Doe, John (n.d.). <i>Undated Work</i>.''"
  "toMLA undatedWork = ''Doe, John. <i>Undated Work</i>..''"
  "toChicago undatedWork = ''Doe, John. n.d.. <i>Undated Work</i>.''"
  "toHarvard undatedWork = ''Doe, John (n.d.) <i>Undated Work</i>.''"
  "toBibTeX undatedWork = ''@book{doenodateundated,\<newline>  title={Undated Work},\<newline>  author={John Doe},\<newline>}''"
  by code_simp+

theorem year_zero_as_absent_witness:
  "year (undatedWork\<lparr>year := Some (Integer 0)\<rparr>) = Some (Integer 0)
   \<and> toAPA (undatedWork\<lparr>year := Some (Integer 0)\<rparr>) = ''Doe, John (n.d.). <i>Undated Work</i>.''
   \<and> toMLA (undatedWork\<lparr>year := Some (Integer 0)\<rparr>) = ''Doe, John. <i>Undated Work</i>..''
   \<and> toChicago (undatedWork\<lparr>year := Some (Integer 0)\<rparr>) = ''Doe, John. n.d.. <i>Undated Work</i>.''
   \<and> toHarvard (undatedWork\<lparr>year := Some (Integer 0)\<rparr>) = ''Doe, John (n.d.) <i>Undated Work</i>.''
   \<and> toBibTeX (undatedWork\<lparr>year := Some (Integer 0)\<rparr>)
       = ''@book{doenodateundated,\<newline>  title={Undated Work},\<newline>  author={John Doe},\<newline>}''"
proof -
  have h: "year (undatedWork\<lparr>year := Some (Integer 0)\<rparr>) = Some (Integer 0)" by simp
  have e: "undatedWork\<lparr>year := Some (Integer 0)\<rparr>\<lparr>year := None\<rparr> = undatedWork"
    by (simp add: undatedWork_def)
  note t = year_zero_as_absent [OF h, unfolded e undatedWork_outputs]
  show ?thesis
    using h t by blast
qed


section \<open>Type classification of a Crossref record\<close>

lemma ctype_fromCrossref: "ctype (fromCrossref gfy r) = mapCrossrefType (ref_type r)"
  by (simp add: fromCrossref_def Let_def)

lemma mapCrossrefType_lower: "mapCrossrefType t = spec_mapCrossrefType (toLowerCase t)"
  by (simp add: mapCrossrefType_def spec_mapCrossrefType_def Let_def includesStr_sublist)

lemma toLowerCase_proceedings:
  "toLowerCase ''proceedings-article'' = ''proceedings-article''"
  by code_simp

lemma sublist_proceedings:
  "\<not> sublist ''book'' ''proceedings-article''" "sublist ''article'' ''proceedings-article''"
  by code_simp+

text \<open>
  Claim C1, amended. For every Crossref reference, \<open>fromCrossref\<close> classifies the type by
  substring checks on the lowercased type string, in this fixed order: contains \<open>book\<close>,
  book; else contains \<open>journal\<close> or \<open>article\<close>, article; else contains \<open>proceedings\<close> or
  \<open>paper\<close>, paper; else unknown. On a type string that lowercasing leaves unchanged the
  checks are on the string itself. A reference of type \<open>proceedings-article\<close> gets the
  type article.
\<close>

theorem fromCrossref_type_classification:
  "ctype (fromCrossref getFullYear r) =
     (let t = toLowerCase (ref_type r)
      in if sublist ''book'' t then Book
         else if sublist ''journal'' t \<or> sublist ''article'' t then Article
         else if sublist ''proceedings'' t \<or> sublist ''paper'' t then Paper
         else Unknown)
   \<and> (toLowerCase (ref_type r) = ref_type r \<longrightarrow>
        ctype (fromCrossref getFullYear r) =
          (if sublist ''book'' (ref_type r) then Book
           else if sublist ''journal'' (ref_type r) \<or> sublist ''article'' (ref_type r) then Article
           else if sublist ''proceedings'' (ref_type r) \<or> sublist ''paper'' (ref_type r) then Paper
           else Unknown))
   \<and> (ref_type r = ''proceedings-article'' \<longrightarrow> ctype (fromCrossref getFullYear r) = Article)"
proof -
  have a: "ctype (fromCrossref getFullYear r) = spec_mapCrossrefType (toLowerCase (ref_type r))"
    by (simp add: ctype_fromCrossref mapCrossrefType_lower)
  have p: "spec_mapCrossrefType ''proceedings-article'' = Article"
    by (simp add: spec_mapCrossrefType_def sublist_proceedings)
  show ?thesis
    using p by (auto simp add: a toLowerCase_proceedings spec_mapCrossrefType_def Let_def)
qed

theorem fromCrossref_type_classification_witness:
  "toLowerCase (ref_type (mockCrossrefReference\<lparr>ref_type := ''proceedings-article''\<rparr>))
     = ref_type (mockCrossrefReference\<lparr>ref_type := ''proceedings-article''\<rparr>)
   \<and> ref_type (mockCrossrefReference\<lparr>ref_type := ''proceedings-article''\<rparr>)
       = ''proceedings-article''
   \<and> ctype (fromCrossref (\<lambda>_. Integer 2023) (mockCrossrefReference\<lparr>ref_type := ''proceedings-article''\<rparr>))
       = Article
   \<and> ctype (fromCrossref (\<lambda>_. Integer 2023) (mockCrossrefReference\<lparr>ref_type := ''proceedings-article''\<rparr>))
       = (if sublist ''book'' ''proceedings-article'' then Book
          else if sublist ''journal'' ''proceedings-article''
                  \<or> sublist ''article'' ''proceedings-article'' then Article
          else if sublist ''proceedings'' ''proceedings-article''
                  \<or> sublist ''paper'' ''proceedings-article'' then Paper
          else Unknown)"
proof -
  have h: "ref_type (mockCrossrefReference\<lparr>ref_type := ''proceedings-article''\<rparr>)
           = ''proceedings-article''" by simp
  have l: "toLowerCase (ref_type (mockCrossrefReference\<lparr>ref_type := ''proceedings-article''\<rparr>))
           = ref_type (mockCrossrefReference\<lparr>ref_type := ''proceedings-article''\<rparr>)"
    by (simp add: toLowerCase_proceedings)
  note t = fromCrossref_type_classification
    [where r = "mockCrossrefReference\<lparr>ref_type := ''proceedings-article''\<rparr>"
       and getFullYear = "\<lambda>_. Integer 2023"]
  have a: "ctype (fromCrossref (\<lambda>_. Integer 2023)
             (mockCrossrefReference\<lparr>ref_type := ''proceedings-article''\<rparr>)) = Article"
    using t h by blast
  have b: "ctype (fromCrossref (\<lambda>_. Integer 2023)
             (mockCrossrefReference\<lparr>ref_type := ''proceedings-article''\<rparr>))
       = (if sublist ''book'' ''proceedings-article'' then Book
          else if sublist ''journal'' ''proceedings-article''
                  \<or> sublist ''article'' ''proceedings-article'' then Article
          else if sublist ''proceedings'' ''proceedings-article''
                  \<or> sublist ''paper'' ''proceedings-article'' then Paper
          else Unknown)"
    using t l unfolding h by blast
  show ?thesis using h l a b by blast
qed

text \<open>
  Claim C1 as stated lets the checks read the type string itself. The type string
  \<open>BOOK\<close> does not contain \<open>book\<close>, nor any of the other four words, so the checks as
  stated give unknown; \<open>fromCrossref\<close> gives book.
\<close>

theorem fromCrossref_type_uppercase_counterexample:
  "ref_type (mockCrossrefReference\<lparr>ref_type := ''BOOK''\<rparr>) = ''BOOK''
   \<and> \<not> sublist ''book'' ''BOOK''
   \<and> spec_mapCrossrefType ''BOOK'' = Unknown
   \<and> ctype (fromCrossref (\<lambda>_. Integer 2023) (mockCrossrefReference\<lparr>ref_type := ''BOOK''\<rparr>)) = Book"
proof -
  have a: "\<not> sublist ''book'' ''BOOK''" by code_simp
  have b: "spec_mapCrossrefType ''BOOK'' = Unknown" by code_simp
  have c: "mapCrossrefType ''BOOK'' = Book" by code_simp
  show ?thesis using a b c by (simp add: ctype_fromCrossref)
qed


section \<open>The name-formatting primitive\<close>

text \<open>
  Claim C3, amended. \<open>formatAuthorLastFirst\<close> trims the name and cuts it at single space
  characters only. If the trimmed name holds no space, the trimmed name is the result.
  Otherwise, with \<open>f\<close> the text after the last space and \<open>g\<close> the whole text before that
  space, the result is \<open>f\<close>, a comma, a space, and \<open>g\<close> as it stands: runs of spaces
  inside \<open>g\<close> are kept, and other whitespace characters do not separate tokens.
\<close>

theorem formatAuthorLastFirst_last_space:
  "(CHR '' '' \<notin> set (trim name) \<longrightarrow> formatAuthorLastFirst name = trim name)
   \<and> (\<forall>g f. trim name = g @ '' '' @ f \<and> CHR '' '' \<notin> set f \<longrightarrow>
          formatAuthorLastFirst name = f @ '', '' @ g)"
  using formatAuthorLastFirst_single [of name] formatAuthorLastFirst_swap [of name]
  by simp

lemma trim_samples:
  "trim ''  Madonna '' = ''Madonna''"
  "trim ''Thomas  H. Cormen'' = ''Thomas  H.'' @ '' '' @ ''Cormen''"
  by code_simp+

theorem formatAuthorLastFirst_last_space_witness:
  "formatAuthorLastFirst ''  Madonna '' = ''Madonna''
   \<and> formatAuthorLastFirst ''Thomas  H. Cormen'' = ''Cormen, Thomas  H.''"
proof -
  have m: "CHR '' '' \<notin> set (trim ''  Madonna '')" by (simp add: trim_samples)
  have c: "CHR '' '' \<notin> set ''Cormen''" by simp
  note t1 = formatAuthorLastFirst_last_space [of "''  Madonna ''"]
  note t2 = formatAuthorLastFirst_last_space [of "''Thomas  H. Cormen''"]
  have 1: "formatAuthorLastFirst ''  Madonna '' = ''Madonna''"
    using t1 m by (simp add: trim_samples)
  have "formatAuthorLastFirst ''Thomas  H. Cormen'' = ''Cormen'' @ '', '' @ ''Thomas  H.''"
    using t2 c trim_samples(2) by blast
  then show ?thesis using 1 by simp
qed

text \<open>
  Claim C3 as stated splits on whitespace, so that a run of spaces between given names
  is rendered as one space. For \<open>Thomas  H. Cormen\<close>, with two spaces after \<open>Thomas\<close>,
  the source keeps both spaces.
\<close>

theorem formatAuthorLastFirst_double_space_counterexample:
  "formatAuthorLastFirst ''Thomas  H. Cormen'' = ''Cormen, Thomas  H.''
   \<and> spec_formatAuthorLastFirst ''Thomas  H. Cormen'' = ''Cormen, Thomas H.''
   \<and> formatAuthorLastFirst ''Thomas  H. Cormen'' \<noteq> spec_formatAuthorLastFirst ''Thomas  H. Cormen''"
proof -
  have a: "formatAuthorLastFirst ''Thomas  H. Cormen'' = ''Cormen, Thomas  H.''" by code_simp
  have b: "spec_formatAuthorLastFirst ''Thomas  H. Cormen'' = ''Cormen, Thomas H.''" by code_simp
  show ?thesis unfolding a b by simp
qed



section \<open>Author lists in MLA and Chicago\<close>

lemma formatAuthorsChicago_many:
  assumes "3 \<le> length as"
  shows "formatAuthorsChicago as =
           join '', '' (map formatAuthorLastFirst (butlast as)) @ '', and '' @ last as"
proof -
  obtain a b c rest where "as = a # b # c # rest"
    using assms by (cases as; cases "tl as"; cases "tl (tl as)") auto
  then show ?thesis by simp
qed

text \<open>
  Claim C4. For every author list of exactly two names, \<open>toMLA\<close> and \<open>toChicago\<close> render
  the first author through the name-formatting primitive (family name first: for a first
  author whose trimmed name is \<open>g\<close>, a space and a last word \<open>f\<close>, as \<open>f, g\<close>) and the
  second author's name verbatim, joined by \<open>, and \<close> in MLA and by \<open> and \<close> in Chicago.
  For every author list of three or more names, \<open>toChicago\<close> renders all authors but the
  last through the primitive, joined by \<open>, \<close>, and the last author's name verbatim after
  \<open>, and \<close>. In each case the rendered citation begins with that author segment,
  followed by a period and a space.
\<close>

theorem second_author_verbatim:
  "formatAuthorsMLA [a, b] = formatAuthorLastFirst a @ '', and '' @ b
   \<and> formatAuthorsChicago [a, b] = formatAuthorLastFirst a @ '' and '' @ b
   \<and> (\<forall>g f. trim a = g @ '' '' @ f \<and> CHR '' '' \<notin> set f \<longrightarrow>
          formatAuthorsMLA [a, b] = f @ '', '' @ g @ '', and '' @ b
          \<and> formatAuthorsChicago [a, b] = f @ '', '' @ g @ '' and '' @ b)
   \<and> (authors c = [a, b] \<longrightarrow>
        prefix (formatAuthorLastFirst a @ '', and '' @ b @ ''. '') (toMLA c)
        \<and> prefix (formatAuthorLastFirst a @ '' and '' @ b @ ''. '') (toChicago c))
   \<and> (3 \<le> length (authors c) \<longrightarrow>
        formatAuthorsChicago (authors c) =
          join '', '' (map formatAuthorLastFirst (butlast (authors c))) @ '', and ''
            @ last (authors c)
        \<and> prefix (join '', '' (map formatAuthorLastFirst (butlast (authors c))) @ '', and ''
                    @ last (authors c) @ ''. '') (toChicago c))"
proof -
  have swap: "\<forall>g f. trim a = g @ '' '' @ f \<and> CHR '' '' \<notin> set f \<longrightarrow>
          formatAuthorsMLA [a, b] = f @ '', '' @ g @ '', and '' @ b
          \<and> formatAuthorsChicago [a, b] = f @ '', '' @ g @ '' and '' @ b"
    using formatAuthorLastFirst_swap [of a] by simp
  have two: "authors c = [a, b] \<longrightarrow>
        prefix (formatAuthorLastFirst a @ '', and '' @ b @ ''. '') (toMLA c)
        \<and> prefix (formatAuthorLastFirst a @ '' and '' @ b @ ''. '') (toChicago c)"
    by (simp add: toMLA_shape toChicago_shape)
  have many: "3 \<le> length (authors c) \<longrightarrow>
        formatAuthorsChicago (authors c) =
          join '', '' (map formatAuthorLastFirst (butlast (authors c))) @ '', and ''
            @ last (authors c)
        \<and> prefix (join '', '' (map formatAuthorLastFirst (butlast (authors c))) @ '', and ''
                    @ last (authors c) @ ''. '') (toChicago c)"
    by (simp add: toChicago_shape formatAuthorsChicago_many)
  show ?thesis using swap two many by simp
qed

lemma sample_names:
  "formatAuthorLastFirst ''Thomas H. Cormen'' = ''Cormen, Thomas H.''"
  "join '', '' (map formatAuthorLastFirst (butlast (authors researchPaper)))
     = ''Johnson, Alice, Williams, Bob''"
  "last (authors researchPaper) = ''Carol Davis''"
  "trim ''Thomas H. Cormen'' = ''Thomas H.'' @ '' '' @ ''Cormen''"
  by code_simp+

theorem second_author_verbatim_witness:
  "trim ''Thomas H. Cormen'' = ''Thomas H.'' @ '' '' @ ''Cormen''
   \<and> CHR '' '' \<notin> set ''Cormen''
   \<and> formatAuthorsMLA [''Thomas H. Cormen'', ''Charles E. Leiserson'']
       = ''Cormen, Thomas H., and Charles E. Leiserson''
   \<and> formatAuthorsChicago [''Thomas H. Cormen'', ''Charles E. Leiserson'']
       = ''Cormen, Thomas H. and Charles E. Leiserson''
   \<and> authors algorithmsBook = [''Thomas H. Cormen'', ''Charles E. Leiserson'']
   \<and> prefix ''Cormen, Thomas H., and Charles E. Leiserson. '' (toMLA algorithmsBook)
   \<and> prefix ''Cormen, Thomas H. and Charles E. Leiserson. '' (toChicago algorithmsBook)
   \<and> 3 \<le> length (authors researchPaper)
   \<and> prefix ''Johnson, Alice, Williams, Bob, and Carol Davis. '' (toChicago researchPaper)"
proof -
  have h1: "trim ''Thomas H. Cormen'' = ''Thomas H.'' @ '' '' @ ''Cormen''"
    by (rule sample_names(4))
  have h1': "CHR '' '' \<notin> set ''Cormen''" by simp
  have h2: "authors algorithmsBook = [''Thomas H. Cormen'', ''Charles E. Leiserson'']"
    by (simp add: algorithmsBook_def)
  have h3: "3 \<le> length (authors researchPaper)"
    by (simp add: researchPaper_def)
  note t2 = second_author_verbatim
    [where c = algorithmsBook and a = "''Thomas H. Cormen''" and b = "''Charles E. Leiserson''"]
  note t3 = second_author_verbatim
    [where c = researchPaper and a = "''Thomas H. Cormen''" and b = "''Charles E. Leiserson''"]
  have sw: "formatAuthorsMLA [''Thomas H. Cormen'', ''Charles E. Leiserson'']
              = ''Cormen'' @ '', '' @ ''Thomas H.'' @ '', and '' @ ''Charles E. Leiserson''
            \<and> formatAuthorsChicago [''Thomas H. Cormen'', ''Charles E. Leiserson'']
              = ''Cormen'' @ '', '' @ ''Thomas H.'' @ '' and '' @ ''Charles E. Leiserson''"
    using t2 h1 h1' by blast
  have two: "prefix (formatAuthorLastFirst ''Thomas H. Cormen'' @ '', and ''
                       @ ''Charles E. Leiserson'' @ ''. '') (toMLA algorithmsBook)
             \<and> prefix (formatAuthorLastFirst ''Thomas H. Cormen'' @ '' and ''
                       @ ''Charles E. Leiserson'' @ ''. '') (toChicago algorithmsBook)"
    using t2 h2 by blast
  have many: "prefix (join '', '' (map formatAuthorLastFirst (butlast (authors researchPaper)))
                       @ '', and '' @ last (authors researchPaper) @ ''. '')
                (toChicago researchPaper)"
    using t3 h3 by blast
  have sw': "formatAuthorsMLA [''Thomas H. Cormen'', ''Charles E. Leiserson'']
              = ''Cormen, Thomas H., and Charles E. Leiserson''
            \<and> formatAuthorsChicago [''Thomas H. Cormen'', ''Charles E. Leiserson'']
              = ''Cormen, Thomas H. and Charles E. Leiserson''"
    using sw by simp
  have two': "prefix ''Cormen, Thomas H., and Charles E. Leiserson. '' (toMLA algorithmsBook)
     \<and> prefix ''Cormen, Thomas H. and Charles E. Leiserson. '' (toChicago algorithmsBook)"
    using two by (simp add: sample_names(1))
  have many': "prefix ''Johnson, Alice, Williams, Bob, and Carol Davis. '' (toChicago researchPaper)"
    using many by (simp add: sample_names(2,3))
  show ?thesis using h1 h1' h2 h3 sw' two' many' by blast
qed



section \<open>MLA assembly\<close>

lemma truthyNum_Some: "truthyNum (Some y) \<longleftrightarrow> y \<noteq> Integer 0 \<and> y \<noteq> NaN"
  by (cases y) simp_all

text \<open>
  Claim C8, amended. For every citation, \<open>toMLA\<close> returns the authors, a period and a
  space, the title (in double quotes if the type is not book, in italics markup if it
  is), a period, then a space and the publisher when the publisher is present and not
  empty, then a comma, a space and the year as JavaScript prints it when the year is
  present and is neither 0 nor \<open>NaN\<close>, then in every case a period, then a space, the
  URL and a period when the URL is present and not empty.
\<close>

theorem toMLA_assembly:
  "toMLA c =
     formatAuthorsMLA (authors c) @ ''.'' @ '' ''
     @ (if ctype c = Book then ''<i>'' @ title c @ ''</i>''
        else [CHR 0x22] @ title c @ [CHR 0x22])
     @ ''.''
     @ (case publisher c of None \<Rightarrow> [] | Some p \<Rightarrow> if p = [] then [] else '' '' @ p)
     @ (case year c of None \<Rightarrow> []
        | Some y \<Rightarrow> if y = Integer 0 \<or> y = NaN then [] else '', '' @ numberToString y)
     @ ''.''
     @ (case url c of None \<Rightarrow> [] | Some u \<Rightarrow> if u = [] then [] else '' '' @ u @ ''.'')"
  by (simp add: toMLA_shape truthyStr_def truthyNum_Some italic_def quoted_def
      split: option.split)

text \<open>
  The theorem at the book of the tests, with its year 2009, with the year \<open>NaN\<close> and with
  a year that prints as \<open>1e+21\<close>.
\<close>

theorem toMLA_assembly_witness:
  "toMLA algorithmsBook
     = ''Cormen, Thomas H., and Charles E. Leiserson. <i>Introduction to Algorithms</i>. MIT Press, 2009.''
   \<and> toMLA (algorithmsBook\<lparr>year := Some NaN\<rparr>)
     = ''Cormen, Thomas H., and Charles E. Leiserson. <i>Introduction to Algorithms</i>. MIT Press.''
   \<and> toMLA (algorithmsBook\<lparr>year := Some (OtherNumber ''1e+21'')\<rparr>)
     = ''Cormen, Thomas H., and Charles E. Leiserson. <i>Introduction to Algorithms</i>. MIT Press, 1e+21.''"
proof -
  have n: "Integer 2009 \<noteq> Integer 0" by simp
  have o: "numberToString (OtherNumber ''1e+21'') = ''1e+21''"
    by (simp add: numberToString.simps)
  have 1: "toMLA algorithmsBook
     = ''Cormen, Thomas H., and Charles E. Leiserson. <i>Introduction to Algorithms</i>. MIT Press, 2009.''"
    using n toMLA_assembly [of algorithmsBook]
    by (simp add: algorithmsBook_def sample_names(1) numberToString_2009)
  have 2: "toMLA (algorithmsBook\<lparr>year := Some NaN\<rparr>)
     = ''Cormen, Thomas H., and Charles E. Leiserson. <i>Introduction to Algorithms</i>. MIT Press.''"
    using toMLA_assembly [of "algorithmsBook\<lparr>year := Some NaN\<rparr>"]
    by (simp add: algorithmsBook_def sample_names(1))
  have 3: "toMLA (algorithmsBook\<lparr>year := Some (OtherNumber ''1e+21'')\<rparr>)
     = ''Cormen, Thomas H., and Charles E. Leiserson. <i>Introduction to Algorithms</i>. MIT Press, 1e+21.''"
    using o toMLA_assembly [of "algorithmsBook\<lparr>year := Some (OtherNumber ''1e+21'')\<rparr>"]
    by (simp add: algorithmsBook_def sample_names(1))
  show ?thesis using 1 2 3 by blast
qed

text \<open>
  Claim C8 as stated emits the year whenever it is present. For the year 0, which is
  present, the source emits no year segment.
\<close>

theorem toMLA_year_zero_counterexample:
  "year (anonymousWork\<lparr>year := Some (Integer 0)\<rparr>) = Some (Integer 0)
   \<and> toMLA (anonymousWork\<lparr>year := Some (Integer 0)\<rparr>)
       = ''Unknown Author. <i>Anonymous Work</i>..''
   \<and> spec_toMLA (anonymousWork\<lparr>year := Some (Integer 0)\<rparr>)
       = ''Unknown Author. <i>Anonymous Work</i>., 0.''
   \<and> toMLA (anonymousWork\<lparr>year := Some (Integer 0)\<rparr>)
       \<noteq> spec_toMLA (anonymousWork\<lparr>year := Some (Integer 0)\<rparr>)"
proof -
  have a: "toMLA (anonymousWork\<lparr>year := Some (Integer 0)\<rparr>)
             = ''Unknown Author. <i>Anonymous Work</i>..''"
    by code_simp
  have b: "spec_toMLA (anonymousWork\<lparr>year := Some (Integer 0)\<rparr>)
             = ''Unknown Author. <i>Anonymous Work</i>., 0.''"
    by code_simp
  show ?thesis unfolding a b by simp
qed


section \<open>Harvard: DOI and URL\<close>

text \<open>
  Claim C9, amended. For every citation, the output of \<open>toHarvard\<close> does not depend on
  the DOI field. When the URL is present and not empty, the output is the output for the
  same citation without URL followed by \<open> Available at: \<close> and the URL, with nothing
  after it. When the URL is present and empty, nothing is appended.
\<close>

theorem toHarvard_ignores_doi:
  "toHarvard (c\<lparr>doi := d\<rparr>) = toHarvard c
   \<and> (\<forall>u. url c = Some u \<and> u \<noteq> [] \<longrightarrow>
         toHarvard c = toHarvard (c\<lparr>url := None\<rparr>) @ '' Available at: '' @ u
         \<and> suffix ('' Available at: '' @ u) (toHarvard c))
   \<and> (url c = Some [] \<longrightarrow> toHarvard c = toHarvard (c\<lparr>url := None\<rparr>))"
  by (simp add: toHarvard_shape truthyStr_def suffix_def)

lemma webArticle_harvard:
  "toHarvard (webArticle\<lparr>url := None\<rparr>) = ''Doe, John (2023) Web Article.''"
  by code_simp

theorem toHarvard_ignores_doi_witness:
  "url webArticle = Some ''https://example.com/article''
   \<and> toHarvard (webArticle\<lparr>doi := Some ''10.1000/xyz''\<rparr>) = toHarvard webArticle
   \<and> toHarvard webArticle
       = ''Doe, John (2023) Web Article. Available at: https://example.com/article''
   \<and> url (webArticle\<lparr>url := Some ''''\<rparr>) = Some ''''
   \<and> toHarvard (webArticle\<lparr>url := Some ''''\<rparr>) = ''Doe, John (2023) Web Article.''"
proof -
  have u: "url webArticle = Some ''https://example.com/article''"
    by (simp add: webArticle_def)
  note t = toHarvard_ignores_doi [where c = webArticle and d = "Some ''10.1000/xyz''"]
  have d: "toHarvard (webArticle\<lparr>doi := Some ''10.1000/xyz''\<rparr>) = toHarvard webArticle"
    using t by (rule conjunct1)
  have "toHarvard webArticle
        = toHarvard (webArticle\<lparr>url := None\<rparr>) @ '' Available at: '' @ ''https://example.com/article''"
    using t u by simp
  then have o: "toHarvard webArticle
       = ''Doe, John (2023) Web Article. Available at: https://example.com/article''"
    by (simp add: webArticle_harvard)
  have e: "url (webArticle\<lparr>url := Some ''''\<rparr>) = Some ''''" by simp
  note t' = toHarvard_ignores_doi [where c = "webArticle\<lparr>url := Some ''''\<rparr>" and d = None]
  have "toHarvard (webArticle\<lparr>url := Some ''''\<rparr>)
        = toHarvard (webArticle\<lparr>url := Some ''''\<rparr>\<lparr>url := None\<rparr>)"
    using t' e by blast
  then have n: "toHarvard (webArticle\<lparr>url := Some ''''\<rparr>) = ''Doe, John (2023) Web Article.''"
    by (simp add: webArticle_harvard)
  show ?thesis using u d o e n by blast
qed

text \<open>
  Claim C9 as stated appends \<open> Available at: \<close> and the URL whenever the URL is present.
  For the empty URL, which is present, the source appends nothing.
\<close>

theorem toHarvard_empty_url_counterexample:
  "url (webArticle\<lparr>url := Some ''''\<rparr>) = Some ''''
   \<and> toHarvard (webArticle\<lparr>url := Some ''''\<rparr>) = ''Doe, John (2023) Web Article.''
   \<and> \<not> suffix ('' Available at: '' @ '''') (toHarvard (webArticle\<lparr>url := Some ''''\<rparr>))"
proof -
  have o: "toHarvard (webArticle\<lparr>url := Some ''''\<rparr>) = ''Doe, John (2023) Web Article.''"
    by code_simp
  have "\<not> suffix '' Available at: '' ''Doe, John (2023) Web Article.''"
    by (simp add: suffix_to_prefix)
  then show ?thesis using o by simp
qed

end
